theory Spec2Isabelle
  imports Main "HOL-Library.AList"
begin

section \<open>JavaScript values and plain objects\<close>

text \<open>
  The stream service of camera.ui (\<^verbatim>\<open>src/controller/camera/services/stream.service.js\<close>)
  stores the transcoder flags in a plain JavaScript object and reads configuration values
  whose type the code never checks. The values are modelled by a small datatype;
  numbers are integers (the configuration holds pixel counts, bit rates and frame rates),
  and HOL equality on \<open>jsval\<close> is strict equality \<^verbatim>\<open>===\<close>.
\<close>

datatype jsval = JUndefined | JNull | JBool bool | JNum int | JStr string

fun truthy :: "jsval \<Rightarrow> bool" where
  "truthy JUndefined = False"
| "truthy JNull = False"
| "truthy (JBool b) = b"
| "truthy (JNum n) = (n \<noteq> 0)"
| "truthy (JStr s) = (s \<noteq> [])"

fun nat_to_string :: "nat \<Rightarrow> string" where
  "nat_to_string n =
     (if n < 10 then [''0123456789'' ! n]
      else nat_to_string (n div 10) @ [''0123456789'' ! (n mod 10)])"

declare nat_to_string.simps [simp del]

text \<open>
  \<^verbatim>\<open>ToString\<close>, as a template literal applies it to an interpolated value. An
  integer is printed in plain decimal, as JavaScript does below \<open>10^21\<close>.
\<close>

fun to_string :: "jsval \<Rightarrow> string" where
  "to_string JUndefined = ''undefined''"
| "to_string JNull = ''null''"
| "to_string (JBool b) = (if b then ''true'' else ''false'')"
| "to_string (JNum n) = (if n < 0 then CHR ''-'' # nat_to_string (nat (- n)) else nat_to_string (nat n))"
| "to_string (JStr s) = s"

text \<open>
  A plain object is the list of its own properties in order of creation. A property key
  that is an array index (the canonical decimal form of an integer below \<open>2^32 - 1\<close>)
  is enumerated before all other keys, in ascending numeric order; the other keys follow
  in order of creation. \<^verbatim>\<open>Object.keys\<close>, \<^verbatim>\<open>Object.entries\<close> and object spread
  all enumerate in this order.
\<close>

type_synonym js_object = "(string \<times> jsval) list"

definition digit_of :: "char \<Rightarrow> nat option" where
  "digit_of c = map_of
     [(CHR ''0'', 0), (CHR ''1'', 1), (CHR ''2'', 2), (CHR ''3'', 3), (CHR ''4'', 4),
      (CHR ''5'', 5), (CHR ''6'', 6), (CHR ''7'', 7), (CHR ''8'', 8), (CHR ''9'', 9)] c"

fun digits_value :: "nat \<Rightarrow> string \<Rightarrow> nat option" where
  "digits_value acc [] = Some acc"
| "digits_value acc (c # cs) =
     (case digit_of c of None \<Rightarrow> None | Some d \<Rightarrow> digits_value (10 * acc + d) cs)"

definition array_index :: "string \<Rightarrow> nat option" where
  "array_index k =
     (if k = [] \<or> (hd k = CHR ''0'' \<and> tl k \<noteq> []) then None
      else case digits_value 0 k of
             None \<Rightarrow> None
           | Some n \<Rightarrow> if n < 4294967295 then Some n else None)"

definition index_rank :: "string \<times> jsval \<Rightarrow> nat" where
  "index_rank e = (case array_index (fst e) of None \<Rightarrow> 0 | Some n \<Rightarrow> n)"

definition own_entries :: "js_object \<Rightarrow> (string \<times> jsval) list" where
  "own_entries obj =
     sort_key index_rank (filter (\<lambda>e. array_index (fst e) \<noteq> None) obj)
     @ filter (\<lambda>e. array_index (fst e) = None) obj"

definition own_keys :: "js_object \<Rightarrow> string list" where
  "own_keys obj = map fst (own_entries obj)"

definition has_key :: "string \<Rightarrow> js_object \<Rightarrow> bool" where
  "has_key k obj = (k \<in> set (map fst obj))"

text \<open>\<^verbatim>\<open>obj[k]\<close> for an own property; a missing property reads as \<^verbatim>\<open>undefined\<close>.\<close>

definition js_get :: "string \<Rightarrow> js_object \<Rightarrow> jsval" where
  "js_get k obj = (case map_of obj k of None \<Rightarrow> JUndefined | Some v \<Rightarrow> v)"

text \<open>
  A property written in an object literal is defined on the new object: an existing key
  keeps its position and takes the new value, a new key is created last.
\<close>

definition js_define :: "string \<Rightarrow> jsval \<Rightarrow> js_object \<Rightarrow> js_object" where
  "js_define k v obj = AList.update k v obj"

text \<open>
  The assignment \<^verbatim>\<open>obj[k] = v\<close> does the same, except for the key \<^verbatim>\<open>__proto__\<close>
  on an object that has no own property of that name: the assignment then reaches the
  accessor inherited from \<^verbatim>\<open>Object.prototype\<close>, which creates no own property (and
  ignores a value that is not an object).
\<close>

definition js_assign :: "string \<Rightarrow> jsval \<Rightarrow> js_object \<Rightarrow> js_object" where
  "js_assign k v obj =
     (if k = ''__proto__'' \<and> \<not> has_key k obj then obj else AList.update k v obj)"

definition js_delete :: "string \<Rightarrow> js_object \<Rightarrow> js_object" where
  "js_delete k obj = AList.delete k obj"

text \<open>\<^verbatim>\<open>{...obj}\<close>: the own properties are defined on a fresh object in enumeration order.\<close>

definition js_spread :: "js_object \<Rightarrow> js_object" where
  "js_spread obj = foldl (\<lambda>acc e. js_define (fst e) (snd e) acc) [] (own_entries obj)"

section \<open>The camera configuration and the option set\<close>

record videoConfig =
  cfg_source :: string
  maxWidth :: jsval
  maxHeight :: jsval
  maxBitrate :: jsval
  maxFPS :: jsval
  encoderOptions :: jsval
  mapvideo :: jsval
  videoFilter :: jsval
  audio :: jsval
  mapaudio :: jsval
  cfg_debug :: jsval

record camera =
  camera_name :: string
  camera_videoConfig :: videoConfig

text \<open>
  \<^verbatim>\<open>streamOptions.source\<close> is the configured string; the assignment in
  \<^verbatim>\<open>setStreamSource\<close> would store an array of tokens instead.
\<close>

datatype stream_source = SourceString string | SourceTokens "string list"

record streamOptions =
  source :: stream_source
  ffmpegOptions :: js_object

definition audio_bundle :: "(string \<times> jsval) list" where
  "audio_bundle =
     [(''-codec:a'', JStr ''mp2''), (''-ar'', JStr ''44100''),
      (''-ac'', JStr ''1''), (''-b:a'', JStr ''128k'')]"

text \<open>\<^verbatim>\<open>{...ffmpegOptions, '-codec:a': 'mp2', '-ar': '44100', '-ac': '1', '-b:a': '128k'}\<close>\<close>

definition with_audio_bundle :: "js_object \<Rightarrow> js_object" where
  "with_audio_bundle obj =
     foldl (\<lambda>acc e. js_define (fst e) (snd e) acc) (js_spread obj) audio_bundle"

definition base_options :: "videoConfig \<Rightarrow> js_object" where
  "base_options vc =
     [(''-s'', JStr (to_string (maxWidth vc) @ ''x'' @ to_string (maxHeight vc))),
      (''-b:v'', maxBitrate vc),
      (''-r'', maxFPS vc),
      (''-bf'', JNum 0),
      (''-preset'', encoderOptions vc),
      (''-threads'', JStr ''1''),
      (''-loglevel'', JStr ''error'')]"

text \<open>The option set that the constructor leaves in \<^verbatim>\<open>streamOptions.ffmpegOptions\<close>.\<close>

definition constructor_options :: "videoConfig \<Rightarrow> js_object" where
  "constructor_options vc =
     (let o1 = base_options vc;
          o2 = (if truthy (mapvideo vc) then js_assign ''-map'' (mapvideo vc) o1 else o1);
          o3 = (if truthy (videoFilter vc) then js_assign ''-filter:v'' (videoFilter vc) o2 else o2)
      in if truthy (audio vc)
         then (let o4 = js_delete ''-an'' o3;
                   o5 = with_audio_bundle o4
               in if truthy (mapaudio vc) then js_assign ''-map'' (mapaudio vc) o5 else o5)
         else o3)"

text \<open>
  A record of the persisted per-camera settings. A field that the record lacks reads as
  \<^verbatim>\<open>undefined\<close>; an entry of the settings array may itself be \<^verbatim>\<open>null\<close> (\<open>None\<close>).
\<close>

record cameraSetting =
  setting_name :: jsval
  setting_resolution :: jsval
  setting_audio :: jsval

definition find_setting :: "string \<Rightarrow> cameraSetting option list \<Rightarrow> cameraSetting option" where
  "find_setting cameraName cameraSettings =
     (case List.find (\<lambda>c. case c of None \<Rightarrow> False
                               | Some r \<Rightarrow> setting_name r = JStr cameraName) cameraSettings of
        None \<Rightarrow> None
      | Some c \<Rightarrow> c)"

text \<open>
  The body of \<^verbatim>\<open>configureStreamOptions\<close> after the settings have been read, as a
  function on the option set.
\<close>

definition configure_options :: "cameraSetting option \<Rightarrow> js_object \<Rightarrow> js_object" where
  "configure_options cameraSetting opts =
     (case cameraSetting of
        None \<Rightarrow> opts
      | Some r \<Rightarrow>
          (let o1 = (if truthy (setting_resolution r)
                     then js_assign ''-s'' (setting_resolution r) opts else opts)
           in if truthy (setting_audio r)
              then with_audio_bundle (js_delete ''-an'' o1)
              else js_assign ''-an'' (JStr '''')
                     (js_delete ''-b:a'' (js_delete ''-ac'' (js_delete ''-ar''
                        (js_delete ''-codec:a'' o1))))))"

text \<open>The loops of \<^verbatim>\<open>setStreamOptions\<close> and \<^verbatim>\<open>delStreamOptions\<close> on the option set.\<close>

definition set_options :: "js_object \<Rightarrow> js_object \<Rightarrow> js_object" where
  "set_options options opts =
     foldl (\<lambda>acc e. js_assign (fst e) (snd e) acc) opts (own_entries options)"

definition del_options :: "string list \<Rightarrow> js_object \<Rightarrow> js_object" where
  "del_options options opts = foldl (\<lambda>acc property. js_delete property acc) opts options"

section \<open>Assembling the transcoder's argument list\<close>

text \<open>\<^verbatim>\<open>s.split(c)\<close> for a one-character separator: one token more than separators.\<close>

fun split_on :: "char \<Rightarrow> string \<Rightarrow> string list" where
  "split_on c [] = [[]]"
| "split_on c (x # xs) =
     (if x = c then [] # split_on c xs
      else case split_on c xs of
             [] \<Rightarrow> [[x]]
           | w # ws \<Rightarrow> (x # w) # ws)"

text \<open>\<^verbatim>\<open>s.includes(t)\<close>\<close>

fun js_includes :: "string \<Rightarrow> string \<Rightarrow> bool" where
  "js_includes [] t = (t = [])"
| "js_includes (x # xs) t = (take (length t) (x # xs) = t \<or> js_includes xs t)"

datatype js_error = TypeError string

text \<open>
  The loop over \<^verbatim>\<open>Object.keys(ffmpegOptions)\<close> that pushes each key and its value.
  The guard around it holds: \<^verbatim>\<open>ffmpegOptions\<close> is always an object, which is truthy.
\<close>

definition additionalFlags :: "js_object \<Rightarrow> jsval list" where
  "additionalFlags opts = concat (map (\<lambda>key. [JStr key, js_get key opts]) (own_keys opts))"

text \<open>
  The array \<^verbatim>\<open>spawnOptions\<close> of \<^verbatim>\<open>start\<close>. An array has no method \<^verbatim>\<open>split\<close>, so
  a source that is not a string makes the call throw.
\<close>

definition spawnOptions :: "streamOptions \<Rightarrow> js_error + jsval list" where
  "spawnOptions so =
     (case source so of
        SourceTokens ts \<Rightarrow> Inl (TypeError ''this.streamOptions.source.split is not a function'')
      | SourceString s \<Rightarrow>
          Inr (filter (\<lambda>key. key \<noteq> JStr [])
                 (map JStr (split_on CHR '' '' s)
                  @ [JStr ''-f'', JStr ''mpegts'', JStr ''-codec:v'', JStr ''mpeg1video'']
                  @ additionalFlags (ffmpegOptions so)
                  @ [JStr ''-q'', JStr ''1'', JStr ''-hide_banner'',
                     JStr ''-max_muxing_queue_size'', JStr ''1024'', JStr ''-''])))"

text \<open>
  \<^verbatim>\<open>spawnOptions.toString().replace(/,/g, ' ')\<close>: the elements are joined by commas
  (\<^verbatim>\<open>undefined\<close> and \<^verbatim>\<open>null\<close> as empty strings) and every comma becomes a space.
\<close>

fun element_string :: "jsval \<Rightarrow> string" where
  "element_string JUndefined = []"
| "element_string JNull = []"
| "element_string v = to_string v"

fun join_commas :: "string list \<Rightarrow> string" where
  "join_commas [] = []"
| "join_commas [x] = x"
| "join_commas (x # y # ys) = x @ '','' @ join_commas (y # ys)"

definition command_text :: "jsval list \<Rightarrow> string" where
  "command_text args =
     map (\<lambda>c. if c = CHR '','' then CHR '' '' else c) (join_commas (map element_string args))"

section \<open>The session and its environment\<close>

text \<open>
  What the service does to its collaborators is recorded as a trace of effects: log
  entries, the calls of the session service (\<^verbatim>\<open>requestSession\<close> with its answer,
  \<^verbatim>\<open>closeSession\<close> with the child process whose exit callback makes the call), child
  processes spawned and signalled, messages emitted on the socket, and timers set.
  A child process is named by its number in order of spawning.
\<close>

datatype log_level = LDebug | LWarn | LError

datatype effect =
    Log log_level string "string option"
  | RequestSession bool
  | CloseSession nat
  | Spawn nat string "jsval list"
  | Kill nat
  | SocketEmit string string string
  | SetTimeout nat

record StreamService =
  cameraName :: string
  debug :: jsval
  videoProcessor :: string
  streamOptions :: streamOptions
  streamSession :: "nat option"

text \<open>
  The service together with its environment: \<open>live\<close> are the child processes whose
  \<^verbatim>\<open>exit\<close> event is still to come, \<open>spawned\<close> counts the processes spawned so far,
  \<open>timers\<close> counts the pending \<^verbatim>\<open>setTimeout\<close> callbacks of \<^verbatim>\<open>restart\<close>.
\<close>

record world =
  service :: StreamService
  live :: "nat set"
  spawned :: nat
  timers :: nat
  trace :: "effect list"

definition emit :: "effect list \<Rightarrow> world \<Rightarrow> world" where
  "emit es w = w\<lparr>trace := trace w @ es\<rparr>"

text \<open>The constructor; \<open>vp\<close> is the configured path of the video processor.\<close>

definition new_StreamService :: "camera \<Rightarrow> string \<Rightarrow> world" where
  "new_StreamService cam vp =
     \<lparr>service =
        \<lparr>cameraName = camera_name cam,
         debug = cfg_debug (camera_videoConfig cam),
         videoProcessor = vp,
         streamOptions =
           \<lparr>source = SourceString (cfg_source (camera_videoConfig cam)),
            ffmpegOptions = constructor_options (camera_videoConfig cam)\<rparr>,
         streamSession = None\<rparr>,
      live = {},
      spawned = 0,
      timers = 0,
      trace = [Log LDebug ''Initializing camera stream'' (Some (camera_name cam))]\<rparr>"

definition configureStreamOptions :: "cameraSetting option list \<Rightarrow> world \<Rightarrow> world" where
  "configureStreamOptions cameraSettings w =
     (let sv = service w; so = streamOptions sv
      in w\<lparr>service := sv\<lparr>streamOptions := so\<lparr>ffmpegOptions :=
             configure_options (find_setting (cameraName sv) cameraSettings) (ffmpegOptions so)\<rparr>\<rparr>\<rparr>)"

text \<open>
  \<^verbatim>\<open>start\<close>; \<open>allowStream\<close> is the answer that \<^verbatim>\<open>requestSession\<close> gives if it is asked.
  The result pairs the exception thrown to the caller, if any, with the world left behind.
\<close>

definition start :: "bool \<Rightarrow> world \<Rightarrow> js_error option \<times> world" where
  "start allowStream w =
     (let sv = service w in
      if streamSession sv = None then
        (let w1 = emit [RequestSession allowStream] w in
         if allowStream then
           (case spawnOptions (streamOptions sv) of
              Inl e \<Rightarrow> (Some e, w1)
            | Inr args \<Rightarrow>
                (let p = spawned w1;
                     w2 = emit [Log LDebug (''Stream command: '' @ videoProcessor sv @ '' ''
                                   @ command_text args) (Some (cameraName sv)),
                                Spawn p (videoProcessor sv) args] w1
                 in (None, w2\<lparr>service := sv\<lparr>streamSession := Some p\<rparr>,
                               live := insert p (live w2),
                               spawned := Suc p\<rparr>)))
         else (None, emit [Log LError ''Not allowed to start stream. Session limit exceeded!''
                             (Some (cameraName sv))] w1))
      else (None, w))"

text \<open>The handlers that \<^verbatim>\<open>start\<close> registers on the child process.\<close>

definition on_stdout :: "string \<Rightarrow> world \<Rightarrow> world" where
  "on_stdout data w =
     (let sv = service w;
          w1 = emit [SocketEmit (''stream/'' @ cameraName sv) (cameraName sv) data] w
      in if truthy (debug sv) then emit [Log LDebug data (Some (cameraName sv))] w1 else w1)"

definition on_stderr :: "string \<Rightarrow> world \<Rightarrow> world" where
  "on_stderr data w =
     emit [Log LError (filter (\<lambda>c. c \<noteq> CHR 0x0A \<and> c \<noteq> CHR 0x0D) data)
             (Some (cameraName (service w)))] w"

text \<open>
  The exit callback of child \<open>p\<close>; \<open>code\<close> is the exit code (\<^verbatim>\<open>null\<close> when a signal
  ended the process) and \<open>signal\<close> the signal's name (\<^verbatim>\<open>null\<close> otherwise).
\<close>

definition exit_log :: "int option \<Rightarrow> string option \<Rightarrow> string \<Rightarrow> effect" where
  "exit_log code signal cam =
     (if code = Some 1
      then Log LError (''Stream exited with error! (''
                         @ (case signal of None \<Rightarrow> ''null'' | Some sg \<Rightarrow> sg) @ '')'') (Some cam)
      else Log LDebug ''Stream exit (expected)'' (Some cam))"

definition on_exit :: "nat \<Rightarrow> int option \<Rightarrow> string option \<Rightarrow> world \<Rightarrow> world" where
  "on_exit p code signal w =
     (let sv = service w;
          w1 = emit [exit_log code signal (cameraName sv)] w;
          w2 = w1\<lparr>service := sv\<lparr>streamSession := None\<rparr>\<rparr>
      in emit [CloseSession p] w2)"

definition stop :: "world \<Rightarrow> world" where
  "stop w =
     (case streamSession (service w) of
        None \<Rightarrow> w
      | Some p \<Rightarrow> emit [Log LDebug ''Stopping stream..'' (Some (cameraName (service w))), Kill p] w)"

definition restart :: "bool \<Rightarrow> world \<Rightarrow> js_error option \<times> world" where
  "restart allowStream w =
     (if streamSession (service w) \<noteq> None
      then (None, (emit [SetTimeout 1500] (stop w))\<lparr>timers := Suc (timers w)\<rparr>)
      else start allowStream w)"

text \<open>
  \<^verbatim>\<open>setStreamSource\<close> calls \<^verbatim>\<open>source.inludes('-i')\<close>. A string has the method
  \<^verbatim>\<open>includes\<close> but no property \<^verbatim>\<open>inludes\<close>: the call of \<^verbatim>\<open>undefined\<close> throws a
  \<^verbatim>\<open>TypeError\<close> before either branch is reached. \<open>string_methods\<close> lists the
  methods of a string that the service calls.
\<close>

definition string_methods :: "string list" where
  "string_methods = [''includes'', ''split'', ''replace'', ''toString'']"

definition setStreamSource :: "string \<Rightarrow> world \<Rightarrow> js_error option \<times> world" where
  "setStreamSource src w =
     (if ''inludes'' \<notin> set string_methods
      then (Some (TypeError ''source.inludes is not a function''), w)
      else if js_includes src ''-i''
      then (let sv = service w; so = streamOptions sv
            in (None, w\<lparr>service := sv\<lparr>streamOptions :=
                           so\<lparr>source := SourceTokens (split_on CHR '' '' src)\<rparr>\<rparr>\<rparr>))
      else (None, emit [Log LWarn (''Source '' @ src @ '' is not valid, skipping'') None] w))"

definition setStreamOptions :: "js_object \<Rightarrow> world \<Rightarrow> world" where
  "setStreamOptions options w =
     (let sv = service w; so = streamOptions sv
      in w\<lparr>service := sv\<lparr>streamOptions :=
             so\<lparr>ffmpegOptions := set_options options (ffmpegOptions so)\<rparr>\<rparr>\<rparr>)"

definition delStreamOptions :: "string list \<Rightarrow> world \<Rightarrow> world" where
  "delStreamOptions options w =
     (let sv = service w; so = streamOptions sv
      in w\<lparr>service := sv\<lparr>streamOptions :=
             so\<lparr>ffmpegOptions := del_options options (ffmpegOptions so)\<rparr>\<rparr>\<rparr>)"

text \<open>
  What can happen to a session: a call of one of its methods, a timer of \<^verbatim>\<open>restart\<close>
  coming due, or an event of a child process. The \<^verbatim>\<open>exit\<close> event of a child is emitted
  once, so \<open>Exit p\<close> can only happen while \<open>p\<close> is live; output can only come from a
  process that was spawned. \<open>step\<close> is \<open>None\<close> for an event that cannot happen. An
  exception goes to the caller and the session carries on from the world left behind.
  The service registers no handler for the \<^verbatim>\<open>error\<close> event of a child, by which a
  failure to spawn would be reported; such failures are not among the events.
\<close>

datatype event =
    Start bool
  | Stop
  | Restart bool
  | Timeout bool
  | Exit nat "int option" "string option"
  | StdoutData nat string
  | StderrData nat string
  | ConfigureStreamOptions "cameraSetting option list"
  | SetStreamSource string
  | SetStreamOptions js_object
  | DelStreamOptions "string list"

fun step :: "event \<Rightarrow> world \<Rightarrow> world option" where
  "step (Start g) w = Some (snd (start g w))"
| "step Stop w = Some (stop w)"
| "step (Restart g) w = Some (snd (restart g w))"
| "step (Timeout g) w =
     (if timers w = 0 then None else Some (snd (start g (w\<lparr>timers := timers w - 1\<rparr>))))"
| "step (Exit p code signal) w =
     (if p \<in> live w then Some (on_exit p code signal (w\<lparr>live := live w - {p}\<rparr>)) else None)"
| "step (StdoutData p data) w = (if p < spawned w then Some (on_stdout data w) else None)"
| "step (StderrData p data) w = (if p < spawned w then Some (on_stderr data w) else None)"
| "step (ConfigureStreamOptions cs) w = Some (configureStreamOptions cs w)"
| "step (SetStreamSource src) w = Some (snd (setStreamSource src w))"
| "step (SetStreamOptions options) w = Some (setStreamOptions options w)"
| "step (DelStreamOptions options) w = Some (delStreamOptions options w)"

fun run :: "event list \<Rightarrow> world \<Rightarrow> world option" where
  "run [] w = Some w"
| "run (e # es) w = (case step e w of None \<Rightarrow> None | Some w' \<Rightarrow> run es w')"

section \<open>Notions used in the statements\<close>

fun is_spawn :: "effect \<Rightarrow> bool" where
  "is_spawn (Spawn p vp args) = True"
| "is_spawn e = False"

definition spawn_count :: "effect list \<Rightarrow> nat" where
  "spawn_count tr = length (filter is_spawn tr)"

text \<open>A camera with audio and both input maps, its session, and two settings records.\<close>

definition example_config :: videoConfig where
  "example_config =
     \<lparr>cfg_source = ''-i rtsp://camera/stream'', maxWidth = JNum 1280, maxHeight = JNum 720,
      maxBitrate = JNum 300, maxFPS = JNum 15, encoderOptions = JStr ''ultrafast'',
      mapvideo = JStr ''0:0'', videoFilter = JUndefined, audio = JBool True,
      mapaudio = JStr ''0:1'', cfg_debug = JBool False\<rparr>"

definition example_camera :: camera where
  "example_camera = \<lparr>camera_name = ''Door'', camera_videoConfig = example_config\<rparr>"

definition example_world :: world where
  "example_world = new_StreamService example_camera ''ffmpeg''"

definition example_setting_on :: cameraSetting where
  "example_setting_on =
     \<lparr>setting_name = JStr ''Door'', setting_resolution = JStr ''640x480'',
      setting_audio = JBool True\<rparr>"

definition example_setting_off :: cameraSetting where
  "example_setting_off =
     \<lparr>setting_name = JStr ''Door'', setting_resolution = JUndefined,
      setting_audio = JUndefined\<rparr>"

fun is_close :: "effect \<Rightarrow> bool" where
  "is_close (CloseSession p) = True"
| "is_close e = False"

fun is_session_call :: "effect \<Rightarrow> bool" where
  "is_session_call (RequestSession g) = True"
| "is_session_call (CloseSession p) = True"
| "is_session_call e = False"

fun is_error_log :: "effect \<Rightarrow> bool" where
  "is_error_log (Log lv msg cam) = (lv = LError)"
| "is_error_log e = False"

text \<open>
  Slots granted and slots released, read off the trace, and the number of \<^verbatim>\<open>exit\<close>
  events of child \<open>p\<close> among the events.
\<close>

definition grants :: "effect list \<Rightarrow> nat" where
  "grants tr = count_list tr (RequestSession True)"

definition releases :: "effect list \<Rightarrow> nat" where
  "releases tr = length (filter is_close tr)"

fun exit_of :: "event \<Rightarrow> nat option" where
  "exit_of (Exit p code signal) = Some p"
| "exit_of e = None"

definition exit_count :: "event list \<Rightarrow> nat \<Rightarrow> nat" where
  "exit_count evs p = count_list (map exit_of evs) (Some p)"

text \<open>
  What holds of every session that the events can produce: the handle is the one live
  child, the source is still a string, a child has released its slot once if it has
  exited and not otherwise, and grants, spawns and releases balance.
\<close>

definition session_inv :: "world \<Rightarrow> bool" where
  "session_inv w =
     (live w = set_option (streamSession (service w)) \<and>
      (\<forall>p \<in> live w. p < spawned w) \<and>
      (\<exists>s. source (streamOptions (service w)) = SourceString s) \<and>
      (\<forall>p. count_list (trace w) (CloseSession p) =
            (if p < spawned w \<and> p \<notin> live w then 1 else 0)) \<and>
      grants (trace w) = spawned w \<and>
      spawn_count (trace w) = spawned w \<and>
      releases (trace w) + card (live w) = spawned w)"

definition exits_inv :: "event list \<Rightarrow> world \<Rightarrow> bool" where
  "exits_inv evs w =
     (\<forall>p. exit_count evs p = (if p < spawned w \<and> p \<notin> live w then 1 else 0))"

text \<open>
  A failure code in the usual sense of an exit status: the process reported an exit code
  and it is not 0.
\<close>

definition failure_exit_code :: "int option \<Rightarrow> bool" where
  "failure_exit_code code = (case code of None \<Rightarrow> False | Some c \<Rightarrow> c \<noteq> 0)"

text \<open>
  The option set holds the no-audio marker together with one of the audio flags; an
  event is neutral if it is not a \<^verbatim>\<open>setStreamOptions\<close> that names one of these five.
\<close>

definition audio_conflict :: "js_object \<Rightarrow> bool" where
  "audio_conflict opts =
     (has_key ''-an'' opts \<and> list_ex (\<lambda>k. has_key k opts) (map fst audio_bundle))"

definition audio_flags :: "string list" where
  "audio_flags = ''-an'' # map fst audio_bundle"

fun audio_neutral :: "event \<Rightarrow> bool" where
  "audio_neutral (SetStreamOptions options) = list_all (\<lambda>k. \<not> has_key k options) audio_flags"
| "audio_neutral e = True"

abbreviation options_of :: "world \<Rightarrow> js_object" where
  "options_of w \<equiv> ffmpegOptions (streamOptions (service w))"

text \<open>
  The argument list as the specification words it: the source tokenized on whitespace,
  the output flags, the entries of the option set in insertion order as name and value,
  the closing flags, and empty tokens dropped.
\<close>

definition output_flags :: "jsval list" where
  "output_flags = [JStr ''-f'', JStr ''mpegts'', JStr ''-codec:v'', JStr ''mpeg1video'']"

definition closing_flags :: "jsval list" where
  "closing_flags = [JStr ''-q'', JStr ''1'', JStr ''-hide_banner'',
                    JStr ''-max_muxing_queue_size'', JStr ''1024'', JStr ''-'']"

definition is_whitespace :: "char \<Rightarrow> bool" where
  "is_whitespace c = (c \<in> set [CHR '' '', CHR 0x09, CHR 0x0A, CHR 0x0B, CHR 0x0C, CHR 0x0D])"

fun split_where :: "(char \<Rightarrow> bool) \<Rightarrow> string \<Rightarrow> string list" where
  "split_where P [] = [[]]"
| "split_where P (x # xs) =
     (if P x then [] # split_where P xs
      else case split_where P xs of
             [] \<Rightarrow> [[x]]
           | w # ws \<Rightarrow> (x # w) # ws)"

definition tokenize_whitespace :: "string \<Rightarrow> string list" where
  "tokenize_whitespace s = filter (\<lambda>t. t \<noteq> []) (split_where is_whitespace s)"

definition name_value_tokens :: "(string \<times> jsval) list \<Rightarrow> jsval list" where
  "name_value_tokens es = concat (map (\<lambda>e. [JStr (fst e), snd e]) es)"

definition spec_argument_list :: "string \<Rightarrow> js_object \<Rightarrow> jsval list" where
  "spec_argument_list s opts =
     filter (\<lambda>t. t \<noteq> JStr [])
       (map JStr (tokenize_whitespace s) @ output_flags @ name_value_tokens opts @ closing_flags)"

text \<open>Stream options with a tab in the source, and with an option named by a number.\<close>

definition tab_source_options :: streamOptions where
  "tab_source_options =
     \<lparr>source = SourceString (''-i'' @ [CHR 0x09] @ ''rtsp://camera/stream''),
      ffmpegOptions = [(''-r'', JNum 15)]\<rparr>"

definition index_key_options :: streamOptions where
  "index_key_options =
     \<lparr>source = SourceString ''-i rtsp://camera/stream'',
      ffmpegOptions = [(''-r'', JNum 15), (''7'', JStr ''x'')]\<rparr>"

text \<open>Two runs of the example session.\<close>

definition example_events :: "event list" where
  "example_events = [Start False, Start True, Start True, Exit 0 (Some 1) None]"

definition example_neutral_events :: "event list" where
  "example_neutral_events =
     [ConfigureStreamOptions [None, Some example_setting_off],
      SetStreamOptions [(''-r'', JNum 25)],
      DelStreamOptions [''-map'']]"

section \<open>Keys and values of the option set\<close>

lemma has_key_Nil [simp]: "\<not> has_key k []"
  by (simp add: has_key_def)

lemma has_key_update: "has_key k (AList.update k' v obj) = (k = k' \<or> has_key k obj)"
  by (auto simp: has_key_def dom_update image_iff)

lemma has_key_define [simp]: "has_key k (js_define k' v obj) = (k = k' \<or> has_key k obj)"
  by (simp add: js_define_def has_key_update)

lemma has_key_assign:
  "has_key k (js_assign k' v obj) =
     ((k = k' \<and> (k' \<noteq> ''__proto__'' \<or> has_key k' obj)) \<or> has_key k obj)"
  by (auto simp: js_assign_def has_key_update)

lemma has_key_delete [simp]: "has_key k (js_delete k' obj) = (k \<noteq> k' \<and> has_key k obj)"
  by (auto simp: js_delete_def has_key_def AList.delete_keys)

lemma set_own_entries [simp]: "set (own_entries obj) = set obj"
  by (auto simp: own_entries_def)

lemma has_key_fold_define:
  "has_key k (foldl (\<lambda>acc e. js_define (fst e) (snd e) acc) obj es) =
     (has_key k obj \<or> k \<in> fst ` set es)"
  by (induction es arbitrary: obj) auto

lemma has_key_spread [simp]: "has_key k (js_spread obj) = has_key k obj"
  by (simp add: js_spread_def has_key_fold_define) (simp add: has_key_def)

lemma has_key_with_audio_bundle:
  "has_key k (with_audio_bundle obj) = (has_key k obj \<or> k \<in> fst ` set audio_bundle)"
  by (simp add: with_audio_bundle_def has_key_fold_define)

lemma distinct_keys_own_entries:
  "distinct (map fst obj) \<Longrightarrow> distinct (map fst (own_entries obj))"
  by (auto simp: own_entries_def distinct_map inj_on_def)

lemma foldl_define_distinct:
  "distinct (map fst (acc @ es)) \<Longrightarrow>
   foldl (\<lambda>acc e. js_define (fst e) (snd e) acc) acc es = acc @ es"
proof (induction es arbitrary: acc)
  case Nil
  then show ?case by simp
next
  case (Cons e es)
  have "fst e \<notin> fst ` set acc" using Cons.prems by auto
  then have "js_define (fst e) (snd e) acc = acc @ [e]"
    by (induction acc) (auto simp: js_define_def)
  moreover have "distinct (map fst ((acc @ [e]) @ es))" using Cons.prems by simp
  ultimately show ?case using Cons.IH [of "acc @ [e]"] by simp
qed

lemma js_spread_distinct: "distinct (map fst obj) \<Longrightarrow> js_spread obj = own_entries obj"
  using foldl_define_distinct [of "[]" "own_entries obj"]
  by (simp add: js_spread_def distinct_keys_own_entries)

lemma distinct_keys_define:
  "distinct (map fst obj) \<Longrightarrow> distinct (map fst (js_define k v obj))"
  by (simp add: js_define_def distinct_update)

lemma distinct_keys_assign:
  "distinct (map fst obj) \<Longrightarrow> distinct (map fst (js_assign k v obj))"
  by (simp add: js_assign_def distinct_update)

lemma distinct_keys_delete:
  "distinct (map fst obj) \<Longrightarrow> distinct (map fst (js_delete k obj))"
  by (simp add: js_delete_def distinct_delete)

lemma distinct_keys_fold_define:
  "distinct (map fst obj) \<Longrightarrow>
   distinct (map fst (foldl (\<lambda>acc e. js_define (fst e) (snd e) acc) obj es))"
  by (induction es arbitrary: obj) (simp_all add: distinct_keys_define)

lemma distinct_keys_spread: "distinct (map fst (js_spread obj))"
  by (simp add: js_spread_def distinct_keys_fold_define)

lemma distinct_keys_with_audio_bundle: "distinct (map fst (with_audio_bundle obj))"
  by (simp add: with_audio_bundle_def distinct_keys_fold_define distinct_keys_spread)

lemma js_get_assign:
  "k' \<noteq> ''__proto__'' \<Longrightarrow>
   js_get k (js_assign k' v obj) = (if k = k' then v else js_get k obj)"
  by (simp add: js_get_def js_assign_def update_conv')

lemma js_get_define: "js_get k (js_define k' v obj) = (if k = k' then v else js_get k obj)"
  by (simp add: js_get_def js_define_def update_conv')

lemma js_get_with_audio_bundle:
  "js_get k (with_audio_bundle obj) =
     (case map_of audio_bundle k of None \<Rightarrow> js_get k (js_spread obj) | Some v \<Rightarrow> v)"
  by (simp add: with_audio_bundle_def audio_bundle_def js_get_define)

lemma count_keys_distinct:
  "distinct (map fst obj) \<Longrightarrow> count_list (map fst obj) k = (if has_key k obj then 1 else 0)"
  by (induction obj) (auto simp: has_key_def)

lemma configure_off_keys:
  assumes "\<not> truthy (setting_audio r)"
  shows "has_key k (configure_options (Some r) opts) =
           (k = ''-an'' \<or> (k \<notin> fst ` set audio_bundle \<and>
              (has_key k opts \<or> (k = ''-s'' \<and> truthy (setting_resolution r)))))"
  using assms by (auto simp: configure_options_def Let_def has_key_assign audio_bundle_def)

lemma configure_on_keys:
  assumes "truthy (setting_audio r)"
  shows "has_key k (configure_options (Some r) opts) =
           (k \<in> fst ` set audio_bundle \<or> (k \<noteq> ''-an'' \<and>
              (has_key k opts \<or> (k = ''-s'' \<and> truthy (setting_resolution r)))))"
  using assms
  by (auto simp: configure_options_def Let_def has_key_assign has_key_with_audio_bundle
      audio_bundle_def)

lemma distinct_keys_configure:
  "distinct (map fst opts) \<Longrightarrow> distinct (map fst (configure_options cs opts))"
  by (auto simp: configure_options_def Let_def distinct_keys_assign distinct_keys_delete
      distinct_keys_with_audio_bundle split: option.splits)

lemma constructor_options_audio_maps:
  assumes "truthy (audio vc)" and "truthy (mapvideo vc)" and "truthy (mapaudio vc)"
  shows "constructor_options vc =
           base_options vc @ [(''-map'', mapaudio vc)]
           @ (if truthy (videoFilter vc) then [(''-filter:v'', videoFilter vc)] else [])
           @ audio_bundle"
  using assms
  by (simp add: constructor_options_def base_options_def Let_def js_assign_def has_key_def
      js_delete_def with_audio_bundle_def js_spread_def own_entries_def array_index_def
      digit_of_def js_define_def audio_bundle_def)

lemma example_options:
  "constructor_options example_config =
     [(''-s'', JStr ''1280x720''), (''-b:v'', JNum 300), (''-r'', JNum 15), (''-bf'', JNum 0),
      (''-preset'', JStr ''ultrafast''), (''-threads'', JStr ''1''),
      (''-loglevel'', JStr ''error''), (''-map'', JStr ''0:1''), (''-codec:a'', JStr ''mp2''),
      (''-ar'', JStr ''44100''), (''-ac'', JStr ''1''), (''-b:a'', JStr ''128k'')]"
proof -
  have "truthy (audio example_config)" "truthy (mapvideo example_config)"
    "truthy (mapaudio example_config)"
    by (simp_all add: example_config_def)
  from constructor_options_audio_maps [OF this] show ?thesis
    by (simp add: example_config_def base_options_def audio_bundle_def nat_to_string.simps)
qed

lemma example_idle: "streamSession (service example_world) = None"
  by (simp add: example_world_def new_StreamService_def)

section \<open>The option set\<close>

lemma configure_toggle:
  assumes "distinct (map fst opts)" and "truthy (setting_audio r_on)"
    and "\<not> truthy (setting_audio r_off)"
  shows "(let o' = configure_options (Some r_off) (configure_options (Some r_on) opts)
          in (\<forall>k \<in> fst ` set audio_bundle. \<not> has_key k o') \<and>
             count_list (map fst o') ''-an'' = 1 \<and> js_get ''-an'' o' = JStr []) \<and>
         (let o' = configure_options (Some r_on) (configure_options (Some r_off) opts)
          in (\<forall>e \<in> set audio_bundle.
                count_list (map fst o') (fst e) = 1 \<and> js_get (fst e) o' = snd e) \<and>
             \<not> has_key ''-an'' o')"
proof -
  let ?on = "configure_options (Some r_on)" and ?off = "configure_options (Some r_off)"
  have d1: "distinct (map fst (?off (?on opts)))" and d2: "distinct (map fst (?on (?off opts)))"
    using assms(1) by (simp_all add: distinct_keys_configure)
  have a: "\<forall>k \<in> fst ` set audio_bundle. \<not> has_key k (?off (?on opts))"
    using assms(3) by (auto simp: configure_off_keys audio_bundle_def)
  have b: "count_list (map fst (?off (?on opts))) ''-an'' = 1"
    using d1 assms(3) by (simp add: count_keys_distinct configure_off_keys)
  have c: "js_get ''-an'' (?off (?on opts)) = JStr []"
    using assms(3) by (simp add: configure_options_def Let_def js_get_assign)
  have d: "\<forall>e \<in> set audio_bundle. count_list (map fst (?on (?off opts))) (fst e) = 1"
    using d2 assms(2) by (simp add: count_keys_distinct configure_on_keys)
  have e: "\<forall>e \<in> set audio_bundle. js_get (fst e) (?on (?off opts)) = snd e"
    using assms(2)
    by (simp add: configure_options_def Let_def js_get_with_audio_bundle audio_bundle_def)
  have f: "\<not> has_key ''-an'' (?on (?off opts))"
    using assms(2) by (simp add: configure_on_keys audio_bundle_def)
  show ?thesis using a b c d e f by (simp add: Let_def)
qed

lemma configureStreamOptions_found:
  assumes "find_setting (cameraName (service w)) cs = Some r"
  shows "options_of (configureStreamOptions cs w) = configure_options (Some r) (options_of w)"
    and "cameraName (service (configureStreamOptions cs w)) = cameraName (service w)"
  using assms by (simp_all add: configureStreamOptions_def Let_def)

lemma example_find:
  "find_setting (cameraName (service example_world)) [Some example_setting_on]
     = Some example_setting_on"
  "find_setting (cameraName (service example_world)) [None, Some example_setting_off]
     = Some example_setting_off"
  by (simp_all add: find_setting_def example_world_def new_StreamService_def example_camera_def
      example_setting_on_def example_setting_off_def)

lemma example_world_options: "options_of example_world = constructor_options example_config"
  by (simp add: example_world_def new_StreamService_def example_camera_def)

text \<open>
  C5. Whatever the option set holds, applying the settings override with audio enabled
  and then with audio disabled leaves none of the audio flags \<^verbatim>\<open>-codec:a\<close>,
  \<^verbatim>\<open>-ar\<close>, \<^verbatim>\<open>-ac\<close>, \<^verbatim>\<open>-b:a\<close> and exactly one \<^verbatim>\<open>-an\<close>, with the empty value;
  disabling and then enabling leaves each audio flag exactly once, with its fixed value,
  and no \<^verbatim>\<open>-an\<close>. The override is \<^verbatim>\<open>configureStreamOptions\<close> reading settings
  that hold a record for this camera, with a truthy or a falsy \<^verbatim>\<open>audio\<close> field. An
  option set is an object, so its keys are distinct.
\<close>

theorem audio_toggle:
  assumes "distinct (map fst (ffmpegOptions (streamOptions (service w))))"
    and "find_setting (cameraName (service w)) cs_on = Some r_on"
    and "truthy (setting_audio r_on)"
    and "find_setting (cameraName (service w)) cs_off = Some r_off"
    and "\<not> truthy (setting_audio r_off)"
  shows "(let o' = ffmpegOptions (streamOptions (service
                     (configureStreamOptions cs_off (configureStreamOptions cs_on w))))
          in (\<forall>k \<in> fst ` set audio_bundle. \<not> has_key k o') \<and>
             count_list (map fst o') ''-an'' = 1 \<and> js_get ''-an'' o' = JStr []) \<and>
         (let o' = ffmpegOptions (streamOptions (service
                     (configureStreamOptions cs_on (configureStreamOptions cs_off w))))
          in (\<forall>e \<in> set audio_bundle.
                count_list (map fst o') (fst e) = 1 \<and> js_get (fst e) o' = snd e) \<and>
             \<not> has_key ''-an'' o')"
proof -
  let ?on = "configureStreamOptions cs_on w" and ?off = "configureStreamOptions cs_off w"
  have "find_setting (cameraName (service ?on)) cs_off = Some r_off"
    and "find_setting (cameraName (service ?off)) cs_on = Some r_on"
    using assms(2,4) by (simp_all add: configureStreamOptions_found)
  then have "options_of (configureStreamOptions cs_off ?on) =
               configure_options (Some r_off) (configure_options (Some r_on) (options_of w))"
    and "options_of (configureStreamOptions cs_on ?off) =
               configure_options (Some r_on) (configure_options (Some r_off) (options_of w))"
    using assms(2,4) by (simp_all add: configureStreamOptions_found)
  then show ?thesis
    using configure_toggle [OF assms(1,3,5)] by simp
qed

theorem audio_toggle_witness:
  "distinct (map fst (ffmpegOptions (streamOptions (service example_world)))) \<and>
   find_setting (cameraName (service example_world)) [Some example_setting_on]
     = Some example_setting_on \<and>
   truthy (setting_audio example_setting_on) \<and>
   find_setting (cameraName (service example_world)) [None, Some example_setting_off]
     = Some example_setting_off \<and>
   \<not> truthy (setting_audio example_setting_off) \<and>
   (let o' = ffmpegOptions (streamOptions (service
               (configureStreamOptions [None, Some example_setting_off]
                  (configureStreamOptions [Some example_setting_on] example_world))))
    in (\<forall>k \<in> fst ` set audio_bundle. \<not> has_key k o') \<and>
       count_list (map fst o') ''-an'' = 1 \<and> js_get ''-an'' o' = JStr []) \<and>
   (let o' = ffmpegOptions (streamOptions (service
               (configureStreamOptions [Some example_setting_on]
                  (configureStreamOptions [None, Some example_setting_off] example_world))))
    in (\<forall>e \<in> set audio_bundle.
          count_list (map fst o') (fst e) = 1 \<and> js_get (fst e) o' = snd e) \<and>
       \<not> has_key ''-an'' o')"
proof -
  have h1: "distinct (map fst (ffmpegOptions (streamOptions (service example_world))))"
    by (simp add: example_world_options example_options)
  have h2: "truthy (setting_audio example_setting_on)"
    by (simp add: example_setting_on_def)
  have h3: "\<not> truthy (setting_audio example_setting_off)"
    by (simp add: example_setting_off_def)
  show ?thesis
    using audio_toggle [OF h1 example_find(1) h2 example_find(2) h3] h1 h2 h3 example_find
    by blast
qed

text \<open>
  C9. When the camera has audio enabled and both a video input map and an audio input
  map, the constructed option set has exactly one \<^verbatim>\<open>-map\<close> entry and its value is the
  audio map: the second assignment replaces the value that the first one stored.
\<close>

theorem audio_map_overwrites_video_map:
  assumes "truthy (audio vc)" and "truthy (mapvideo vc)" and "truthy (mapaudio vc)"
  shows "filter (\<lambda>e. fst e = ''-map'') (constructor_options vc) = [(''-map'', mapaudio vc)] \<and>
         js_get ''-map'' (constructor_options vc) = mapaudio vc"
  by (simp add: constructor_options_audio_maps [OF assms] base_options_def audio_bundle_def
      js_get_def)

theorem audio_map_overwrites_video_map_witness:
  "truthy (audio example_config) \<and> truthy (mapvideo example_config) \<and>
   truthy (mapaudio example_config) \<and>
   mapvideo example_config = JStr ''0:0'' \<and>
   filter (\<lambda>e. fst e = ''-map'') (constructor_options example_config) = [(''-map'', JStr ''0:1'')] \<and>
   js_get ''-map'' (constructor_options example_config) = JStr ''0:1''"
proof -
  have h: "truthy (audio example_config)" "truthy (mapvideo example_config)"
    "truthy (mapaudio example_config)"
    by (simp_all add: example_config_def)
  show ?thesis using audio_map_overwrites_video_map [OF h] h
    by (simp add: example_config_def)
qed

text \<open>
  C10. When the settings hold a record for this camera whose \<^verbatim>\<open>audio\<close> field is
  absent, or has any other falsy value, \<^verbatim>\<open>configureStreamOptions\<close> disables audio:
  afterwards the option set has none of the audio flags and has \<^verbatim>\<open>-an\<close> with the
  empty value, whatever the option set was before, so also when the camera was configured
  with audio.
\<close>

theorem absent_audio_disables:
  assumes "find_setting (cameraName (service w)) cameraSettings = Some r"
    and "\<not> truthy (setting_audio r)"
  shows "(let o' = ffmpegOptions (streamOptions (service (configureStreamOptions cameraSettings w)))
          in (\<forall>k \<in> fst ` set audio_bundle. \<not> has_key k o') \<and>
             has_key ''-an'' o' \<and> js_get ''-an'' o' = JStr [])"
proof -
  have "ffmpegOptions (streamOptions (service (configureStreamOptions cameraSettings w))) =
          configure_options (Some r) (ffmpegOptions (streamOptions (service w)))"
    using assms(1) by (simp add: configureStreamOptions_def Let_def)
  moreover have "js_get ''-an'' (configure_options (Some r) opts) = JStr []" for opts
    using assms(2) by (simp add: configure_options_def Let_def js_get_assign)
  ultimately show ?thesis
    using assms(2) by (simp add: Let_def configure_off_keys) (simp add: audio_bundle_def)
qed

theorem absent_audio_disables_witness:
  "find_setting (cameraName (service example_world)) [None, Some example_setting_off]
     = Some example_setting_off \<and>
   setting_audio example_setting_off = JUndefined \<and>
   \<not> truthy (setting_audio example_setting_off) \<and>
   truthy (audio example_config) \<and>
   has_key ''-codec:a'' (ffmpegOptions (streamOptions (service example_world))) \<and>
   (let o' = ffmpegOptions (streamOptions (service
               (configureStreamOptions [None, Some example_setting_off] example_world)))
    in (\<forall>k \<in> fst ` set audio_bundle. \<not> has_key k o') \<and>
       has_key ''-an'' o' \<and> js_get ''-an'' o' = JStr [])"
proof -
  have h1: "find_setting (cameraName (service example_world)) [None, Some example_setting_off]
     = Some example_setting_off"
    by (simp add: find_setting_def example_world_def new_StreamService_def example_camera_def
        example_setting_off_def)
  have h2: "\<not> truthy (setting_audio example_setting_off)"
    by (simp add: example_setting_off_def)
  have h3: "has_key ''-codec:a'' (ffmpegOptions (streamOptions (service example_world)))"
    by (simp add: example_world_def new_StreamService_def example_camera_def example_options
        has_key_def)
  show ?thesis using absent_audio_disables [OF h1 h2] h1 h2 h3
    by (simp add: example_setting_off_def example_config_def)
qed

section \<open>Audio flags and the no-audio marker\<close>

lemma options_start [simp]: "options_of (snd (start g w)) = options_of w"
  by (simp add: start_def emit_def Let_def split: sum.splits)

lemma options_stop [simp]: "options_of (stop w) = options_of w"
  by (simp add: stop_def emit_def split: option.splits)

lemma options_restart [simp]: "options_of (snd (restart g w)) = options_of w"
  by (simp add: restart_def emit_def)

lemma options_on_exit [simp]: "options_of (on_exit p c sg w) = options_of w"
  by (simp add: on_exit_def emit_def Let_def)

lemma options_on_stdout [simp]: "options_of (on_stdout d w) = options_of w"
  by (simp add: on_stdout_def emit_def Let_def)

lemma options_on_stderr [simp]: "options_of (on_stderr d w) = options_of w"
  by (simp add: on_stderr_def emit_def)

lemma options_setStreamSource [simp]: "options_of (snd (setStreamSource src w)) = options_of w"
  by (simp add: setStreamSource_def string_methods_def)

lemma has_key_fold_assign:
  "k \<notin> fst ` set es \<Longrightarrow>
   has_key k (foldl (\<lambda>acc e. js_assign (fst e) (snd e) acc) opts es) = has_key k opts"
  by (induction es arbitrary: opts) (auto simp: has_key_assign)

lemma has_key_set_options:
  "\<not> has_key k options \<Longrightarrow> has_key k (set_options options opts) = has_key k opts"
proof -
  assume "\<not> has_key k options"
  then have "k \<notin> fst ` set (own_entries options)" by (simp add: has_key_def)
  then show ?thesis by (simp add: set_options_def has_key_fold_assign)
qed

lemma has_key_fold_delete:
  "has_key k (foldl (\<lambda>acc property. js_delete property acc) opts ks) =
     (k \<notin> set ks \<and> has_key k opts)"
  by (induction ks arbitrary: opts) auto

lemma has_key_del_options: "has_key k (del_options ks opts) \<Longrightarrow> has_key k opts"
  by (simp add: del_options_def has_key_fold_delete)

lemma audio_conflict_iff:
  "audio_conflict opts =
     (has_key ''-an'' opts \<and> (has_key ''-codec:a'' opts \<or> has_key ''-ar'' opts \<or>
        has_key ''-ac'' opts \<or> has_key ''-b:a'' opts))"
  by (simp add: audio_conflict_def audio_bundle_def)

lemma constructor_no_conflict: "\<not> audio_conflict (constructor_options vc)"
  by (simp add: audio_conflict_iff constructor_options_def Let_def has_key_assign
      has_key_with_audio_bundle base_options_def audio_bundle_def) (simp add: has_key_def)

lemma configure_no_conflict:
  "\<not> audio_conflict opts \<Longrightarrow> \<not> audio_conflict (configure_options cs opts)"
proof (cases cs)
  case None
  then show "\<not> audio_conflict opts \<Longrightarrow> ?thesis" by (simp add: configure_options_def)
next
  case (Some r)
  show ?thesis
  proof (cases "truthy (setting_audio r)")
    case True
    then show ?thesis by (simp add: Some audio_conflict_iff configure_on_keys audio_bundle_def)
  next
    case False
    then show ?thesis by (simp add: Some audio_conflict_iff configure_off_keys audio_bundle_def)
  qed
qed

lemma set_options_no_conflict:
  assumes "\<not> audio_conflict opts" and "list_all (\<lambda>k. \<not> has_key k options) audio_flags"
  shows "\<not> audio_conflict (set_options options opts)"
  using assms
  by (simp add: audio_conflict_iff audio_flags_def audio_bundle_def has_key_set_options)

lemma del_options_no_conflict:
  "\<not> audio_conflict opts \<Longrightarrow> \<not> audio_conflict (del_options ks opts)"
  by (auto simp: audio_conflict_iff dest: has_key_del_options)

lemma step_no_conflict:
  assumes "\<not> audio_conflict (options_of w)" and "audio_neutral e" and "step e w = Some w'"
  shows "\<not> audio_conflict (options_of w')"
proof (cases e)
  case (ConfigureStreamOptions cs)
  then show ?thesis using assms
    by (auto simp: configureStreamOptions_def Let_def configure_no_conflict)
next
  case (SetStreamOptions options)
  then show ?thesis using assms
    by (auto simp: setStreamOptions_def Let_def set_options_no_conflict)
next
  case (DelStreamOptions ks)
  then show ?thesis using assms
    by (auto simp: delStreamOptions_def Let_def del_options_no_conflict)
qed (use assms in \<open>auto split: if_splits\<close>)

lemma run_no_conflict:
  "\<not> audio_conflict (options_of w) \<Longrightarrow> list_all audio_neutral evs \<Longrightarrow> run evs w = Some w'
   \<Longrightarrow> \<not> audio_conflict (options_of w')"
proof (induction evs arbitrary: w)
  case Nil
  then show ?case by simp
next
  case (Cons e evs)
  then obtain w1 where s: "step e w = Some w1" and r: "run evs w1 = Some w'"
    by (auto split: option.splits)
  have "\<not> audio_conflict (options_of w1)"
    using step_no_conflict [OF Cons.prems(1) _ s] Cons.prems(2) by simp
  then show ?case using Cons.IH [OF _ _ r] Cons.prems(2) by simp
qed

text \<open>
  C6. The specification has it that no sequence of public operations leaves \<^verbatim>\<open>-an\<close> together
  with an audio flag. \<^verbatim>\<open>setStreamOptions\<close> stores whatever it is given, so that
  fails: on a camera with audio, \<^verbatim>\<open>setStreamOptions({'-an': ''})\<close> leaves both.
\<close>

theorem no_audio_conflict_counterexample:
  "run [SetStreamOptions [(''-an'', JStr [])]] example_world
     = Some (setStreamOptions [(''-an'', JStr [])] example_world) \<and>
   has_key ''-an'' (ffmpegOptions (streamOptions (service
      (setStreamOptions [(''-an'', JStr [])] example_world)))) \<and>
   has_key ''-codec:a'' (ffmpegOptions (streamOptions (service
      (setStreamOptions [(''-an'', JStr [])] example_world)))) \<and>
   audio_conflict (ffmpegOptions (streamOptions (service
      (setStreamOptions [(''-an'', JStr [])] example_world))))"
  by (simp add: audio_conflict_iff setStreamOptions_def Let_def set_options_def
      own_entries_def array_index_def digit_of_def has_key_assign example_world_def
      new_StreamService_def example_camera_def example_options) (simp add: has_key_def)

text \<open>
  C6, as the code has it. The option set never holds \<^verbatim>\<open>-an\<close> together with an audio
  flag after any sequence of events in which no \<^verbatim>\<open>setStreamOptions\<close> names
  \<^verbatim>\<open>-an\<close>, \<^verbatim>\<open>-codec:a\<close>, \<^verbatim>\<open>-ar\<close>, \<^verbatim>\<open>-ac\<close> or \<^verbatim>\<open>-b:a\<close>: the constructor,
  \<^verbatim>\<open>configureStreamOptions\<close> and \<^verbatim>\<open>delStreamOptions\<close> keep the two apart.
\<close>

theorem no_audio_conflict:
  assumes "run evs (new_StreamService cam vp) = Some w" and "list_all audio_neutral evs"
  shows "\<not> audio_conflict (ffmpegOptions (streamOptions (service w)))"
proof -
  have "\<not> audio_conflict (options_of (new_StreamService cam vp))"
    by (simp add: new_StreamService_def constructor_no_conflict)
  then show ?thesis using run_no_conflict assms by blast
qed

theorem no_audio_conflict_witness:
  "list_all audio_neutral example_neutral_events \<and>
   run example_neutral_events example_world =
     Some (delStreamOptions [''-map''] (setStreamOptions [(''-r'', JNum 25)]
            (configureStreamOptions [None, Some example_setting_off] example_world))) \<and>
   \<not> audio_conflict (ffmpegOptions (streamOptions (service
        (delStreamOptions [''-map''] (setStreamOptions [(''-r'', JNum 25)]
            (configureStreamOptions [None, Some example_setting_off] example_world))))))"
proof -
  have n: "list_all audio_neutral example_neutral_events"
    by (simp add: example_neutral_events_def audio_flags_def audio_bundle_def has_key_def)
  have r: "run example_neutral_events (new_StreamService example_camera ''ffmpeg'') =
     Some (delStreamOptions [''-map''] (setStreamOptions [(''-r'', JNum 25)]
            (configureStreamOptions [None, Some example_setting_off] example_world)))"
    by (simp add: example_neutral_events_def example_world_def)
  show ?thesis using no_audio_conflict [OF r n] n r by (simp add: example_world_def)
qed

section \<open>The argument list\<close>

lemma additionalFlags_entries:
  assumes "distinct (map fst opts)"
  shows "additionalFlags opts = name_value_tokens (own_entries opts)"
proof -
  have "js_get (fst e) opts = snd e" if "e \<in> set opts" for e
    using assms that by (cases e) (simp add: js_get_def)
  then have eq: "map (\<lambda>x. [JStr (fst x), js_get (fst x) opts]) (own_entries opts) =
             map (\<lambda>e. [JStr (fst e), snd e]) (own_entries opts)"
    by (intro map_cong) simp_all
  show ?thesis
    by (simp only: additionalFlags_def name_value_tokens_def own_keys_def map_map comp_def eq)
qed

lemma own_entries_no_index:
  "\<forall>k \<in> set (map fst opts). array_index k = None \<Longrightarrow> own_entries opts = opts"
  by (simp add: own_entries_def filter_empty_conv)

lemma split_where_space:
  "\<forall>c \<in> set s. is_whitespace c \<longrightarrow> c = CHR '' '' \<Longrightarrow>
   split_where is_whitespace s = split_on CHR '' '' s"
  by (induction s) (auto simp: is_whitespace_def)

text \<open>
  C4. The specification has it that the argument list is the source tokenized on whitespace, the
  output flags, the option set's entries in insertion order, and the closing flags. The
  code splits the source with \<^verbatim>\<open>split(' ')\<close>, so a tab does not separate tokens; and
  \<^verbatim>\<open>Object.keys\<close> lists a key that is an array index before the keys created earlier.
\<close>

theorem spawn_argument_list_counterexample:
  "spawnOptions tab_source_options =
     Inr [JStr (''-i'' @ [CHR 0x09] @ ''rtsp://camera/stream''), JStr ''-f'', JStr ''mpegts'',
          JStr ''-codec:v'', JStr ''mpeg1video'', JStr ''-r'', JNum 15, JStr ''-q'', JStr ''1'',
          JStr ''-hide_banner'', JStr ''-max_muxing_queue_size'', JStr ''1024'', JStr ''-''] \<and>
   spec_argument_list (''-i'' @ [CHR 0x09] @ ''rtsp://camera/stream'')
       (ffmpegOptions tab_source_options) =
     [JStr ''-i'', JStr ''rtsp://camera/stream'', JStr ''-f'', JStr ''mpegts'',
      JStr ''-codec:v'', JStr ''mpeg1video'', JStr ''-r'', JNum 15, JStr ''-q'', JStr ''1'',
      JStr ''-hide_banner'', JStr ''-max_muxing_queue_size'', JStr ''1024'', JStr ''-''] \<and>
   spawnOptions tab_source_options \<noteq>
     Inr (spec_argument_list (''-i'' @ [CHR 0x09] @ ''rtsp://camera/stream'')
            (ffmpegOptions tab_source_options)) \<and>
   spawnOptions index_key_options =
     Inr [JStr ''-i'', JStr ''rtsp://camera/stream'', JStr ''-f'', JStr ''mpegts'',
          JStr ''-codec:v'', JStr ''mpeg1video'', JStr ''7'', JStr ''x'', JStr ''-r'', JNum 15,
          JStr ''-q'', JStr ''1'', JStr ''-hide_banner'', JStr ''-max_muxing_queue_size'',
          JStr ''1024'', JStr ''-''] \<and>
   spec_argument_list ''-i rtsp://camera/stream'' (ffmpegOptions index_key_options) =
     [JStr ''-i'', JStr ''rtsp://camera/stream'', JStr ''-f'', JStr ''mpegts'',
      JStr ''-codec:v'', JStr ''mpeg1video'', JStr ''-r'', JNum 15, JStr ''7'', JStr ''x'',
      JStr ''-q'', JStr ''1'', JStr ''-hide_banner'', JStr ''-max_muxing_queue_size'',
      JStr ''1024'', JStr ''-''] \<and>
   spawnOptions index_key_options \<noteq>
     Inr (spec_argument_list ''-i rtsp://camera/stream'' (ffmpegOptions index_key_options))"
  by (simp add: spawnOptions_def tab_source_options_def index_key_options_def
      additionalFlags_def own_keys_def own_entries_def array_index_def digit_of_def
      index_rank_def js_get_def spec_argument_list_def tokenize_whitespace_def
      is_whitespace_def output_flags_def closing_flags_def name_value_tokens_def)

text \<open>
  C4, as the code has it. For stream options whose source is a string, the argument list
  is a function of the stream options: the source split at every space, the output flags,
  the entries of the option set as name and value in the order in which the object
  enumerates its keys, and the closing flags, with every token equal to the empty string
  removed; so no argument is the empty string. The enumeration order is the insertion
  order when no key is an array index, and when moreover the only whitespace in the
  source is the space, the list is the one that the specification describes.
\<close>

theorem spawn_argument_list:
  assumes "source so = SourceString s" and "distinct (map fst (ffmpegOptions so))"
  shows "spawnOptions so =
           Inr (filter (\<lambda>t. t \<noteq> JStr [])
                  (map JStr (split_on CHR '' '' s) @ output_flags
                   @ name_value_tokens (own_entries (ffmpegOptions so)) @ closing_flags)) \<and>
         (\<forall>args. spawnOptions so = Inr args \<longrightarrow> JStr [] \<notin> set args) \<and>
         ((\<forall>k \<in> set (map fst (ffmpegOptions so)). array_index k = None) \<longrightarrow>
            own_entries (ffmpegOptions so) = ffmpegOptions so) \<and>
         ((\<forall>c \<in> set s. is_whitespace c \<longrightarrow> c = CHR '' '') \<and>
          (\<forall>k \<in> set (map fst (ffmpegOptions so)). array_index k = None) \<longrightarrow>
            spawnOptions so = Inr (spec_argument_list s (ffmpegOptions so)))"
proof -
  have a: "spawnOptions so =
           Inr (filter (\<lambda>t. t \<noteq> JStr [])
                  (map JStr (split_on CHR '' '' s) @ output_flags
                   @ name_value_tokens (own_entries (ffmpegOptions so)) @ closing_flags))"
    using assms
    by (simp add: spawnOptions_def additionalFlags_entries output_flags_def closing_flags_def)
  have b: "\<forall>args. spawnOptions so = Inr args \<longrightarrow> JStr [] \<notin> set args"
    unfolding a by auto
  have c: "filter (\<lambda>t. t \<noteq> JStr []) (map JStr ts) = map JStr (filter (\<lambda>t. t \<noteq> []) ts)" for ts
    by (induction ts) auto
  have d: "spawnOptions so = Inr (spec_argument_list s (ffmpegOptions so))"
    if "\<forall>c \<in> set s. is_whitespace c \<longrightarrow> c = CHR '' ''"
      and "\<forall>k \<in> set (map fst (ffmpegOptions so)). array_index k = None"
    unfolding a spec_argument_list_def tokenize_whitespace_def
    by (simp add: split_where_space [OF that(1)] own_entries_no_index [OF that(2)] c)
  show ?thesis using a b d own_entries_no_index by blast
qed

theorem spawn_argument_list_witness:
  "source (streamOptions (service example_world)) = SourceString ''-i rtsp://camera/stream'' \<and>
   distinct (map fst (ffmpegOptions (streamOptions (service example_world)))) \<and>
   filter is_whitespace ''-i rtsp://camera/stream'' = '' '' \<and>
   list_all (\<lambda>k. array_index k = None)
     (map fst (ffmpegOptions (streamOptions (service example_world)))) \<and>
   spawnOptions (streamOptions (service example_world)) =
     Inr (spec_argument_list ''-i rtsp://camera/stream''
            (ffmpegOptions (streamOptions (service example_world)))) \<and>
   spawnOptions (streamOptions (service example_world)) =
     Inr [JStr ''-i'', JStr ''rtsp://camera/stream'', JStr ''-f'', JStr ''mpegts'',
          JStr ''-codec:v'', JStr ''mpeg1video'',
          JStr ''-s'', JStr ''1280x720'', JStr ''-b:v'', JNum 300, JStr ''-r'', JNum 15,
          JStr ''-bf'', JNum 0, JStr ''-preset'', JStr ''ultrafast'', JStr ''-threads'', JStr ''1'',
          JStr ''-loglevel'', JStr ''error'', JStr ''-map'', JStr ''0:1'',
          JStr ''-codec:a'', JStr ''mp2'', JStr ''-ar'', JStr ''44100'', JStr ''-ac'', JStr ''1'',
          JStr ''-b:a'', JStr ''128k'',
          JStr ''-q'', JStr ''1'', JStr ''-hide_banner'', JStr ''-max_muxing_queue_size'',
          JStr ''1024'', JStr ''-'']"
proof -
  have o: "ffmpegOptions (streamOptions (service example_world)) = constructor_options example_config"
    by (simp add: example_world_def new_StreamService_def example_camera_def)
  have h1: "source (streamOptions (service example_world)) = SourceString ''-i rtsp://camera/stream''"
    by (simp add: example_world_def new_StreamService_def example_camera_def example_config_def)
  have h2: "distinct (map fst (ffmpegOptions (streamOptions (service example_world))))"
    by (simp add: o example_options)
  have h3: "\<forall>c \<in> set ''-i rtsp://camera/stream''. is_whitespace c \<longrightarrow> c = CHR '' ''"
    by (simp add: is_whitespace_def)
  have h4: "\<forall>k \<in> set (map fst (ffmpegOptions (streamOptions (service example_world)))). array_index k = None"
    by (simp add: o example_options array_index_def digit_of_def)
  have h5: "spec_argument_list ''-i rtsp://camera/stream''
              (ffmpegOptions (streamOptions (service example_world))) =
     [JStr ''-i'', JStr ''rtsp://camera/stream'', JStr ''-f'', JStr ''mpegts'',
          JStr ''-codec:v'', JStr ''mpeg1video'',
          JStr ''-s'', JStr ''1280x720'', JStr ''-b:v'', JNum 300, JStr ''-r'', JNum 15,
          JStr ''-bf'', JNum 0, JStr ''-preset'', JStr ''ultrafast'', JStr ''-threads'', JStr ''1'',
          JStr ''-loglevel'', JStr ''error'', JStr ''-map'', JStr ''0:1'',
          JStr ''-codec:a'', JStr ''mp2'', JStr ''-ar'', JStr ''44100'', JStr ''-ac'', JStr ''1'',
          JStr ''-b:a'', JStr ''128k'',
          JStr ''-q'', JStr ''1'', JStr ''-hide_banner'', JStr ''-max_muxing_queue_size'',
          JStr ''1024'', JStr ''-'']"
    by (simp add: o spec_argument_list_def example_options tokenize_whitespace_def
        is_whitespace_def output_flags_def closing_flags_def name_value_tokens_def)
  from spawn_argument_list [OF h1 h2] h3 h4
  have e: "spawnOptions (streamOptions (service example_world)) =
     Inr (spec_argument_list ''-i rtsp://camera/stream''
            (ffmpegOptions (streamOptions (service example_world))))"
    by blast
  have h6: "filter is_whitespace ''-i rtsp://camera/stream'' = '' ''"
    by (simp add: is_whitespace_def)
  have h7: "list_all (\<lambda>k. array_index k = None)
              (map fst (ffmpegOptions (streamOptions (service example_world))))"
    using h4 by (simp add: list_all_iff)
  show ?thesis using h1 h2 h6 h7 e e [unfolded h5] by blast
qed

section \<open>Starting a session\<close>

text \<open>
  C2. When \<^verbatim>\<open>start\<close> is called on a session without a child process and the session
  service denies the request, the call returns without an exception, spawns nothing and
  leaves the session as it was; the only effects are the request itself and one entry in
  the log at error level.
\<close>

theorem start_denied:
  "streamSession (service w) = None \<Longrightarrow>
   start False w =
     (None, w\<lparr>trace := trace w @
                 [RequestSession False,
                  Log LError ''Not allowed to start stream. Session limit exceeded!''
                    (Some (cameraName (service w)))]\<rparr>)"
  by (simp add: start_def emit_def)

theorem start_denied_witness:
  "streamSession (service example_world) = None \<and>
   start False example_world =
     (None, example_world\<lparr>trace := trace example_world @
                 [RequestSession False,
                  Log LError ''Not allowed to start stream. Session limit exceeded!''
                    (Some (cameraName (service example_world)))]\<rparr>)"
  using start_denied [OF example_idle] example_idle by simp

text \<open>
  C3. While the session holds a child process, \<^verbatim>\<open>start\<close> does nothing: no request to
  the session service, no process, the same handle. So two calls in a row on an idle
  session, the first one admitted, spawn exactly one process.
\<close>

theorem start_idempotent:
  "(streamSession (service w) \<noteq> None \<longrightarrow> start g w = (None, w)) \<and>
   (streamSession (service w) = None \<and> source (streamOptions (service w)) = SourceString s \<longrightarrow>
      start g (snd (start True w)) = (None, snd (start True w)) \<and>
      spawn_count (trace (snd (start g (snd (start True w))))) = Suc (spawn_count (trace w)))"
  by (simp add: start_def emit_def spawnOptions_def spawn_count_def Let_def)

theorem start_idempotent_witness:
  "streamSession (service (snd (start True example_world))) \<noteq> None \<and>
   start False (snd (start True example_world)) = (None, snd (start True example_world)) \<and>
   streamSession (service example_world) = None \<and>
   source (streamOptions (service example_world)) = SourceString ''-i rtsp://camera/stream'' \<and>
   start True (snd (start True example_world)) = (None, snd (start True example_world)) \<and>
   spawn_count (trace (snd (start True (snd (start True example_world))))) =
     Suc (spawn_count (trace example_world))"
proof -
  have h1: "streamSession (service (snd (start True example_world))) \<noteq> None"
    by (simp add: start_def emit_def spawnOptions_def Let_def example_world_def
        new_StreamService_def)
  have h2: "source (streamOptions (service example_world)) = SourceString ''-i rtsp://camera/stream''"
    by (simp add: example_world_def new_StreamService_def example_camera_def example_config_def)
  show ?thesis
    using start_idempotent [of "snd (start True example_world)" False "[]"]
      start_idempotent [of example_world True "''-i rtsp://camera/stream''"]
      h1 h2 example_idle
    by blast
qed

section \<open>The exit callback\<close>

text \<open>
  C7. The specification has it that the callback logs an error exactly when the exit code is a
  failure code. The code compares the exit code with 1 only: a process that exits with
  code 2 is logged as an expected exit, at debug level.
\<close>

theorem exit_callback_counterexample:
  "failure_exit_code (Some 2) \<and>
   \<not> is_error_log (exit_log (Some 2) None ''Door'') \<and>
   trace (on_exit 0 (Some 2) None (snd (start True example_world))) =
     trace (snd (start True example_world))
     @ [Log LDebug ''Stream exit (expected)'' (Some ''Door''), CloseSession 0]"
  by (simp add: failure_exit_code_def exit_log_def on_exit_def emit_def start_def Let_def
      spawnOptions_def example_world_def new_StreamService_def example_camera_def)

text \<open>
  C7, as the code has it. The exit callback logs at error level, with the signal in the
  message, exactly when the exit code is 1; for every other outcome (any other exit code,
  or no exit code because a signal ended the process) it logs
  \<^verbatim>\<open>Stream exit (expected)\<close> at debug level. In both cases it clears the handle and
  then calls \<^verbatim>\<open>closeSession\<close>.
\<close>

theorem exit_callback:
  "on_exit p code signal w =
     w\<lparr>service := (service w)\<lparr>streamSession := None\<rparr>,
       trace := trace w @ [exit_log code signal (cameraName (service w)), CloseSession p]\<rparr> \<and>
   (is_error_log (exit_log code signal cam) \<longleftrightarrow> code = Some 1) \<and>
   (code = Some 1 \<longrightarrow>
      exit_log code signal cam =
        Log LError (''Stream exited with error! (''
                      @ (case signal of None \<Rightarrow> ''null'' | Some sg \<Rightarrow> sg) @ '')'') (Some cam)) \<and>
   (code \<noteq> Some 1 \<longrightarrow>
      exit_log code signal cam = Log LDebug ''Stream exit (expected)'' (Some cam))"
  by (simp add: on_exit_def emit_def exit_log_def Let_def)

theorem exit_callback_witness:
  "is_error_log (exit_log (Some 1) None ''Door'') \<and>
   exit_log (Some 1) None ''Door'' = Log LError ''Stream exited with error! (null)'' (Some ''Door'') \<and>
   (None :: int option) \<noteq> Some 1 \<and>
   exit_log None (Some ''SIGTERM'') ''Door'' = Log LDebug ''Stream exit (expected)'' (Some ''Door'') \<and>
   streamSession (service (on_exit 0 (Some 1) None (snd (start True example_world)))) = None"
  using exit_callback [of 0 "Some 1" None "snd (start True example_world)" "''Door''"]
    exit_callback [of 0 None "Some ''SIGTERM''" "snd (start True example_world)" "''Door''"]
  by simp

section \<open>Admission slots\<close>

lemma run_snoc:
  "run (evs @ [e]) w = (case run evs w of None \<Rightarrow> None | Some w' \<Rightarrow> step e w')"
  by (induction evs arbitrary: w) (auto split: option.splits)

lemma start_running: "streamSession (service w) \<noteq> None \<Longrightarrow> start g w = (None, w)"
  by (auto simp: start_def Let_def)

lemma start_idle_denied:
  "streamSession (service w) = None \<Longrightarrow>
   start False w = (None, emit [RequestSession False,
      Log LError ''Not allowed to start stream. Session limit exceeded!''
        (Some (cameraName (service w)))] w)"
  by (simp add: start_def emit_def)

lemma spawnOptions_string:
  "source so = SourceString s \<Longrightarrow> \<exists>args. spawnOptions so = Inr args"
  by (simp add: spawnOptions_def)

lemma start_idle_granted:
  assumes "streamSession (service w) = None"
    and "spawnOptions (streamOptions (service w)) = Inr args"
  shows "start True w =
     (None, w\<lparr>trace := trace w @
                 [RequestSession True,
                  Log LDebug (''Stream command: '' @ videoProcessor (service w) @ '' ''
                        @ command_text args) (Some (cameraName (service w))),
                  Spawn (spawned w) (videoProcessor (service w)) args],
              service := (service w)\<lparr>streamSession := Some (spawned w)\<rparr>,
              live := insert (spawned w) (live w),
              spawned := Suc (spawned w)\<rparr>)"
  using assms by (simp add: start_def emit_def Let_def)

lemma inv_emit_neutral:
  assumes "session_inv w" and "\<forall>e \<in> set es. \<not> is_close e \<and> \<not> is_spawn e \<and> e \<noteq> RequestSession True"
  shows "session_inv (emit es w)"
proof -
  have a: "count_list es (CloseSession p) = 0" for p
    using assms(2) by (auto simp: count_list_0_iff)
  have b: "count_list es (RequestSession True) = 0"
    using assms(2) by (auto simp: count_list_0_iff)
  have c: "filter is_spawn es = []" "filter is_close es = []"
    using assms(2) by (auto simp: filter_empty_conv)
  show ?thesis using assms(1)
    by (auto simp: session_inv_def emit_def a b c grants_def spawn_count_def releases_def)
qed

lemma inv_start:
  assumes "session_inv w"
  shows "session_inv (snd (start g w))"
proof (cases "streamSession (service w)")
  case (Some p)
  then show ?thesis using assms by (simp add: start_running)
next
  case None
  show ?thesis
  proof (cases g)
    case False
    then show ?thesis using None assms by (simp add: start_idle_denied inv_emit_neutral)
  next
    case True
    from assms obtain s where "source (streamOptions (service w)) = SourceString s"
      by (auto simp: session_inv_def)
    from spawnOptions_string [OF this] obtain args
      where "spawnOptions (streamOptions (service w)) = Inr args" by blast
    note eq = start_idle_granted [OF None this]
    have l: "live w = {}" using assms None by (simp add: session_inv_def)
    show ?thesis using assms None
      by (auto simp: True eq l session_inv_def grants_def spawn_count_def releases_def)
  qed
qed

lemma inv_stop: "session_inv w \<Longrightarrow> session_inv (stop w)"
  by (auto simp: stop_def inv_emit_neutral split: option.splits)

lemma inv_timers: "session_inv (w\<lparr>timers := n\<rparr>) = session_inv w"
  by (simp add: session_inv_def)

lemma inv_restart: "session_inv w \<Longrightarrow> session_inv (snd (restart g w))"
  by (auto simp: restart_def inv_start inv_stop inv_emit_neutral inv_timers)

lemma inv_on_stdout: "session_inv w \<Longrightarrow> session_inv (on_stdout d w)"
  by (auto simp: on_stdout_def Let_def inv_emit_neutral)

lemma inv_on_stderr: "session_inv w \<Longrightarrow> session_inv (on_stderr d w)"
  by (auto simp: on_stderr_def inv_emit_neutral)

lemma inv_exit:
  assumes "session_inv w" and "p \<in> live w"
  shows "session_inv (on_exit p code signal (w\<lparr>live := live w - {p}\<rparr>))"
proof -
  have l: "live w = {p}" and s: "streamSession (service w) = Some p"
    using assms by (auto simp: session_inv_def split: option.splits)
  have c: "\<not> is_close (exit_log code signal cam)" "\<not> is_spawn (exit_log code signal cam)"
    "exit_log code signal cam \<noteq> RequestSession True"
    "exit_log code signal cam \<noteq> CloseSession q" for cam q
    by (simp_all add: exit_log_def)
  show ?thesis using assms
    by (auto simp: session_inv_def on_exit_def emit_def Let_def l c grants_def spawn_count_def
        releases_def)
qed

lemma inv_options:
  "session_inv (w\<lparr>service := (service w)\<lparr>streamOptions :=
       (streamOptions (service w))\<lparr>ffmpegOptions := opts\<rparr>\<rparr>\<rparr>) = session_inv w"
  by (simp add: session_inv_def)

lemma step_inv:
  assumes "session_inv w" and "step e w = Some w'"
  shows "session_inv w'"
proof (cases e)
  case (Exit p code signal)
  then show ?thesis using assms by (auto simp: inv_exit split: if_splits)
next
  case (Timeout g)
  then show ?thesis using assms
    by (auto simp: inv_start inv_timers split: if_splits)
qed (use assms in \<open>auto simp: inv_start inv_stop inv_restart inv_on_stdout inv_on_stderr
      inv_options configureStreamOptions_def setStreamOptions_def delStreamOptions_def Let_def
      setStreamSource_def string_methods_def split: if_splits\<close>)

lemma new_inv: "session_inv (new_StreamService cam vp)"
  by (simp add: session_inv_def new_StreamService_def grants_def spawn_count_def releases_def)


lemma start_live_spawned:
  assumes "session_inv w"
  shows "(spawned (snd (start g w)) = spawned w \<and> live (snd (start g w)) = live w) \<or>
         (spawned (snd (start g w)) = Suc (spawned w) \<and>
          live (snd (start g w)) = insert (spawned w) (live w))"
proof (cases "streamSession (service w) = None \<and> g")
  case True
  from assms obtain s where "source (streamOptions (service w)) = SourceString s"
    by (auto simp: session_inv_def)
  from spawnOptions_string [OF this] obtain args
    where "spawnOptions (streamOptions (service w)) = Inr args" by blast
  from start_idle_granted [OF _ this] True show ?thesis by simp
next
  case False
  then show ?thesis
    by (cases "streamSession (service w)") (auto simp: start_running start_idle_denied emit_def)
qed

lemma exits_inv_same:
  assumes "exits_inv evs w" and "exit_of e = None" and "spawned w' = spawned w" and "live w' = live w"
  shows "exits_inv (evs @ [e]) w'"
  using assms by (simp add: exits_inv_def exit_count_def)

lemma exits_inv_spawn:
  assumes "exits_inv evs w" and "exit_of e = None" and "spawned w' = Suc (spawned w)"
    and "live w' = insert (spawned w) (live w)" and "\<forall>p \<in> live w. p < spawned w"
  shows "exits_inv (evs @ [e]) w'"
  using assms by (auto simp: exits_inv_def exit_count_def less_Suc_eq)

lemma exits_inv_start:
  assumes "session_inv w" and "exits_inv evs w" and "exit_of e = None"
    and "spawned w0 = spawned w" and "live w0 = live w" and "session_inv w0"
  shows "exits_inv (evs @ [e]) (snd (start g w0))"
  using start_live_spawned [OF assms(6), of g] assms
  by (auto intro: exits_inv_same exits_inv_spawn simp: session_inv_def)

lemma stop_live_spawned [simp]: "spawned (stop w) = spawned w" "live (stop w) = live w"
  by (simp_all add: stop_def emit_def split: option.splits)

lemma step_exits_inv:
  assumes "session_inv w" and "exits_inv evs w" and "step e w = Some w'"
  shows "exits_inv (evs @ [e]) w'"
proof (cases e)
  case (Start g)
  then show ?thesis using assms exits_inv_start [OF assms(1,2), of e w g] by simp
next
  case (Restart g)
  show ?thesis
  proof (cases "streamSession (service w) = None")
    case True
    then show ?thesis using Restart assms exits_inv_start [OF assms(1,2), of e w g]
      by (simp add: restart_def)
  next
    case False
    then show ?thesis using Restart assms
      by (auto simp: restart_def emit_def intro: exits_inv_same)
  qed
next
  case (Timeout g)
  then show ?thesis
    using assms exits_inv_start [OF assms(1,2), of e "w\<lparr>timers := timers w - 1\<rparr>" g]
    by (auto simp: inv_timers split: if_splits)
next
  case (Exit p code signal)
  then have p: "p \<in> live w" and w': "w' = on_exit p code signal (w\<lparr>live := live w - {p}\<rparr>)"
    using assms(3) by (auto split: if_splits)
  have sp: "spawned w' = spawned w" and lv: "live w' = live w - {p}"
    by (simp_all add: w' on_exit_def emit_def Let_def)
  have "p < spawned w" using assms(1) p by (auto simp: session_inv_def)
  then show ?thesis using assms(2) p
    by (auto simp: exits_inv_def exit_count_def Exit sp lv)
qed (use assms in \<open>auto intro!: exits_inv_same simp: on_stdout_def on_stderr_def emit_def Let_def
      configureStreamOptions_def setStreamOptions_def delStreamOptions_def
      setStreamSource_def string_methods_def split: if_splits\<close>)

lemma run_invariants:
  "run evs (new_StreamService cam vp) = Some w \<Longrightarrow> session_inv w \<and> exits_inv evs w"
proof (induction evs arbitrary: w rule: rev_induct)
  case Nil
  then show ?case
    using new_inv [of cam vp]
    by (auto simp: exits_inv_def exit_count_def new_StreamService_def)
next
  case (snoc e evs)
  then obtain w1 where r: "run evs (new_StreamService cam vp) = Some w1"
    and s: "step e w1 = Some w"
    by (auto simp: run_snoc split: option.splits)
  from snoc.IH [OF r] s show ?case
    by (auto intro: step_inv step_exits_inv)
qed

lemma emit_sel:
  "service (emit es w) = service w" "live (emit es w) = live w" "spawned (emit es w) = spawned w"
  "timers (emit es w) = timers w" "trace (emit es w) = trace w @ es"
  by (simp_all add: emit_def)

lemma example_run:
  "\<exists>w. run example_events example_world = Some w \<and> streamSession (service w) = None \<and>
       filter is_session_call (trace w) = [RequestSession False, RequestSession True, CloseSession 0]"
proof -
  let ?w1 = "emit [RequestSession False,
      Log LError ''Not allowed to start stream. Session limit exceeded!''
        (Some (cameraName (service example_world)))] example_world"
  have s1: "start False example_world = (None, ?w1)"
    by (rule start_idle_denied [OF example_idle])
  have i1: "streamSession (service ?w1) = None"
    by (simp add: emit_def example_idle)
  have "source (streamOptions (service ?w1)) = SourceString ''-i rtsp://camera/stream''"
    by (simp add: emit_def example_world_def new_StreamService_def example_camera_def
        example_config_def)
  from spawnOptions_string [OF this] obtain args
    where a: "spawnOptions (streamOptions (service ?w1)) = Inr args" by blast
  note s2 = start_idle_granted [OF i1 a]
  let ?w2 = "snd (start True ?w1)"
  have p2: "streamSession (service ?w2) = Some 0" "live ?w2 = {0}"
    "filter is_session_call (trace ?w2) = [RequestSession False, RequestSession True]"
    unfolding s2 by (simp_all add: emit_def example_world_def new_StreamService_def)
  have s3: "start True ?w2 = (None, ?w2)"
    by (rule start_running) (simp add: p2)
  have r: "run example_events example_world =
             Some (on_exit 0 (Some 1) None (?w2\<lparr>live := live ?w2 - {0}\<rparr>))"
    by (simp add: example_events_def s1 s3 p2)
  show ?thesis
    unfolding r by (simp add: on_exit_def Let_def emit_sel p2 exit_log_def)
qed

text \<open>
  C1. In every run of a session from its construction, the exit callback of a child
  process has called \<^verbatim>\<open>closeSession\<close> exactly once if the child has exited, whatever
  its exit code, and not at all otherwise; a child exits at most once, and each child
  that exits was spawned on a grant. Every grant spawns one child, and the grants are the
  releases plus one for the child that the session still holds: a denied request
  releases nothing and no grant is released twice.
\<close>

theorem slot_conservation:
  assumes "run evs (new_StreamService cam vp) = Some w"
  shows "(\<forall>p. count_list (trace w) (CloseSession p) = exit_count evs p \<and> exit_count evs p \<le> 1) \<and>
         (\<forall>p. exit_count evs p = 1 \<longrightarrow> p < grants (trace w)) \<and>
         grants (trace w) = spawn_count (trace w) \<and>
         releases (trace w) + (if streamSession (service w) = None then 0 else 1) = grants (trace w)"
proof -
  from run_invariants [OF assms] have i: "session_inv w" and x: "exits_inv evs w" by simp_all
  have c: "card (live w) = (if streamSession (service w) = None then 0 else 1)"
    using i by (auto simp: session_inv_def)
  have r: "releases (trace w) + card (live w) = grants (trace w)"
    using i by (auto simp: session_inv_def)
  show ?thesis using i x r unfolding c
    by (auto simp: session_inv_def exits_inv_def split: if_splits)
qed

theorem slot_conservation_witness:
  "run example_events example_world \<noteq> None \<and>
   exit_count example_events 0 = 1 \<and>
   count_list (trace (the (run example_events example_world))) (CloseSession 0) = 1 \<and>
   count_list (trace (the (run example_events example_world))) (CloseSession 1) = 0 \<and>
   filter is_session_call (trace (the (run example_events example_world))) =
     [RequestSession False, RequestSession True, CloseSession 0] \<and>
   releases (trace (the (run example_events example_world))) +
     (if streamSession (service (the (run example_events example_world))) = None then 0 else 1) =
     grants (trace (the (run example_events example_world)))"
proof -
  from example_run obtain w where w: "run example_events example_world = Some w"
    and f: "filter is_session_call (trace w) = [RequestSession False, RequestSession True, CloseSession 0]"
    by blast
  have r: "run example_events (new_StreamService example_camera ''ffmpeg'') = Some w"
    using w by (simp add: example_world_def)
  have e: "exit_count example_events 0 = 1" "exit_count example_events 1 = 0"
    by (simp_all add: exit_count_def example_events_def)
  show ?thesis using slot_conservation [OF r] w e f
    by simp
qed

section \<open>Replacing the source\<close>

text \<open>
  C8. \<^verbatim>\<open>setStreamSource\<close> is meant to keep the source and log a warning when the new
  source lacks \<^verbatim>\<open>-i\<close>. The code does keep the source, but by throwing: for every
  string, with or without \<^verbatim>\<open>-i\<close>, the misspelt method call raises a
  \<^verbatim>\<open>TypeError\<close> to the caller, and no warning is logged.
\<close>

theorem setStreamSource_throws:
  "setStreamSource ''rtsp://camera/stream'' example_world =
     (Some (TypeError ''source.inludes is not a function''), example_world) \<and>
   setStreamSource src w = (Some (TypeError ''source.inludes is not a function''), w)"
  by (simp add: setStreamSource_def string_methods_def)

end
